theory Spec2Isabelle
  imports Complex_Main "HOL-Library.Word" "HOL-Library.Multiset" "HOL-Library.Log_Nat"
begin

unbundle bit_operations_syntax

section \<open>Incremental video mosaicing: the class \<open>VideMosaic\<close> of \<open>Img_stitching2.py\<close>\<close>

text \<open>
  The development embeds the class \<open>VideMosaic\<close> and the loop of \<open>main\<close>. The object is a
  record that every method takes and returns; a Python exception is the left summand of
  the result. OpenCV and the float32 arithmetic of NumPy are not part of the program:
  their entry points are the fields of the record \<open>cv2\<close>, which every method receives as
  its first argument, so that each theorem holds for every behaviour of the libraries
  (or says which behaviour it assumes).

  Numbers: frame samples are \<open>uint8\<close>, modelled as \<open>8 word\<close>. A finite float is the real
  number it stands for. The products of Python floats (the canvas extents, the ratio
  test) are rounded to binary64 as IEEE 754 rounds them, by \<open>py_float_mul\<close>. The float32
  subtraction, mean and scalar product of \<open>findHomography\<close> are NumPy's, taken from the
  record; the NaN mean of an empty array is the value \<open>None\<close> of \<open>mean_displacement\<close>.
  The differences and halves of array extents in the constructor are exact in binary64
  for every extent an array can have, and are written exactly. The entries of
  \<open>np.matmul\<close> are written as exact sums of products.
\<close>

subsection \<open>Exceptions\<close>

text \<open>
  The exceptions that the program can raise. An \<open>AttributeError\<close> carries its message,
  written without the quotation marks.
\<close>

datatype py_error = AttributeError string | IndexError | ValueError | OverflowError | CvError

type_synonym 'a result = "py_error + 'a"

definition rbind :: "'a result \<Rightarrow> ('a \<Rightarrow> 'b result) \<Rightarrow> 'b result" where
  "rbind m f = (case m of Inl e \<Rightarrow> Inl e | Inr x \<Rightarrow> f x)"

text \<open>A list comprehension whose element expression may raise: the first failure wins.\<close>

fun comprehension :: "('a \<Rightarrow> 'b result) \<Rightarrow> 'a list \<Rightarrow> 'b list result" where
  "comprehension f [] = Inr []"
| "comprehension f (x # xs) =
     rbind (f x) (\<lambda>y. rbind (comprehension f xs) (\<lambda>ys. Inr (y # ys)))"

text \<open>\<open>xs[i]\<close> on a tuple or list: a negative index counts from the end.\<close>

definition py_index :: "'a list \<Rightarrow> int \<Rightarrow> 'a result" where
  "py_index xs i =
     (let n = int (length xs); j = (if i < 0 then i + n else i)
      in if j < 0 \<or> n \<le> j then Inl IndexError else Inr (xs ! nat j))"

text \<open>\<open>int(x)\<close> on a float truncates toward zero.\<close>

definition py_int :: "real \<Rightarrow> int" where
  "py_int x = (if 0 \<le> x then \<lfloor>x\<rfloor> else \<lceil>x\<rceil>)"

subsection \<open>Python floats\<close>

text \<open>
  A Python float is an IEEE 754 binary64 number. \<open>ilog2 a\<close> is the exponent of a positive
  \<open>a\<close>: the integer \<open>e\<close> with \<open>2^e \<le> a < 2^(e+1)\<close> (lemma \<open>ilog2_bounds\<close>).
\<close>

definition pow2 :: "int \<Rightarrow> real" where
  "pow2 e = (if 0 \<le> e then 2 ^ nat e else 1 / 2 ^ nat (- e))"

definition ilog2 :: "real \<Rightarrow> int" where
  "ilog2 a = (if 1 \<le> a then int (floorlog 2 (nat \<lfloor>a\<rfloor>)) - 1
              else - int (floorlog 2 (nat (\<lceil>1 / a\<rceil> - 1))))"

text \<open>Rounding to the nearest integer, a tie to the even one.\<close>

definition round_half_even :: "real \<Rightarrow> int" where
  "round_half_even x =
     (let f = \<lfloor>x\<rfloor>; d = x - real_of_int f
      in if d < 1 / 2 then f else if 1 / 2 < d then f + 1 else if even f then f else f + 1)"

text \<open>
  Rounding to the nearest number with a significand of \<open>p\<close> bits, ties to even, the
  unit in the last place not below \<open>2^emin\<close> (so that small results are subnormal).
\<close>

definition round_binary :: "nat \<Rightarrow> int \<Rightarrow> real \<Rightarrow> real" where
  "round_binary p emin x =
     (if x = 0 then 0
      else let e = max (ilog2 \<bar>x\<bar> - int p + 1) emin
           in real_of_int (round_half_even (x / pow2 e)) * pow2 e)"

text \<open>
  The product of two floats: the exact product rounded to binary64, or \<open>None\<close> for an
  infinity when the rounded magnitude reaches \<open>2^1024\<close>.
\<close>

definition py_float_mul :: "real \<Rightarrow> real \<Rightarrow> real option" where
  "py_float_mul a b =
     (let r = round_binary 53 (- 1074) (a * b)
      in if r \<noteq> 0 \<and> 1024 \<le> ilog2 \<bar>r\<bar> then None else Some r)"

text \<open>The floats that the literals \<open>1.2\<close> and \<open>0.7\<close> denote.\<close>

definition float_1_2 :: real where
  "float_1_2 = 5404319552844595 / 4503599627370496"

definition float_0_7 :: real where
  "float_0_7 = 3152519739159347 / 4503599627370496"

subsection \<open>Arrays and OpenCV values\<close>

type_synonym frame = "8 word list list list"
type_synonym gray = "8 word list list"
type_synonym canvas = "real list list list"
type_synonym matrix = "real list list"
type_synonym point = "real \<times> real"

text \<open>
  An array is the list of its rows. \<open>shape2\<close> and \<open>shape3\<close> read the extents off the first
  row, as all rows of an ndarray have the same length.
\<close>

definition shape2 :: "'a list list \<Rightarrow> nat \<times> nat" where
  "shape2 a = (length a, (case a of [] \<Rightarrow> 0 | r # _ \<Rightarrow> length r))"

definition shape3 :: "'a list list list \<Rightarrow> nat \<times> nat \<times> nat" where
  "shape3 a = (length a, shape2 (case a of [] \<Rightarrow> [] | r # _ \<Rightarrow> r))"

record keypoint =
  pt :: point

record dmatch =
  queryIdx :: int
  trainIdx :: int
  distance :: real

datatype detector = SIFT_create nat | ORB_create nat

datatype matcher = FlannBasedMatcher | BFMatcher

text \<open>
  The OpenCV entry points the class calls. Descriptors are an opaque array \<open>'d\<close>;
  \<open>detectAndCompute\<close> returns \<open>None\<close> for them when it finds no keypoint. The robust fits
  return \<open>None\<close> for the matrix when they find no solution. Every call may raise.

  The last three fields are the float32 operations of NumPy in \<open>findHomography\<close>, whose
  results depend on NumPy's order of summation and on its version: the subtraction of
  two float32 arrays, entry by entry; the mean of a non-empty float32 array along its
  first axis; the product of a float32 scalar and a Python float. Their results are
  finite floats.
\<close>

record 'd cv2 =
  cv2_cvtColor :: "frame \<Rightarrow> gray result"
  cv2_detectAndCompute :: "detector \<Rightarrow> gray \<Rightarrow> (keypoint list \<times> 'd option) result"
  cv2_knnMatch :: "matcher \<Rightarrow> 'd option \<Rightarrow> 'd option \<Rightarrow> nat \<Rightarrow> dmatch list list result"
  cv2_match :: "matcher \<Rightarrow> 'd option \<Rightarrow> 'd option \<Rightarrow> dmatch list result"
  cv2_estimateAffine2D :: "point list \<Rightarrow> point list \<Rightarrow> matrix option result"
  cv2_findHomography :: "point list \<Rightarrow> point list \<Rightarrow> matrix option result"
  cv2_warpAffine :: "frame \<Rightarrow> matrix \<Rightarrow> nat \<times> nat \<Rightarrow> frame result"
  cv2_warpPerspective :: "frame \<Rightarrow> matrix \<Rightarrow> nat \<times> nat \<Rightarrow> frame result"
  np_subtract :: "real \<Rightarrow> real \<Rightarrow> real"
  np_mean :: "real list \<Rightarrow> real"
  np_multiply :: "real \<Rightarrow> real \<Rightarrow> real"

subsection \<open>The object\<close>

text \<open>
  The attributes of a \<open>VideMosaic\<close>. \<open>frame_cur\<close>, \<open>kp_cur\<close>, \<open>des_cur\<close> and \<open>H\<close> (here
  \<open>self_H\<close>) do not exist before the first call of \<open>process_frame\<close>: they are options.
\<close>

record 'd VideMosaic =
  detector_type :: string
  detector :: detector
  bf :: matcher
  visualize :: bool
  frame_prev :: frame
  kp_prev :: "keypoint list"
  des_prev :: "'d option"
  output_img :: canvas
  w_offset :: int
  h_offset :: int
  H_old :: matrix
  frame_cur :: "frame option"
  kp_cur :: "keypoint list option"
  des_cur :: "'d option option"
  self_H :: "matrix option"

subsection \<open>\<open>match\<close>\<close>

text \<open>
  \<open>m.distance < 0.7 * n.distance\<close>, a product of Python floats; when it is an infinity,
  it has the sign of \<open>n.distance\<close>.
\<close>

definition passes_ratio :: "dmatch \<Rightarrow> dmatch \<Rightarrow> bool" where
  "passes_ratio m n =
     (case py_float_mul float_0_7 (distance n) of
        Some t \<Rightarrow> distance m < t
      | None \<Rightarrow> 0 < distance n)"

text \<open>
  The ratio test of the SIFT path, \<open>[m for m, n in pair_matches if m.distance < 0.7 * n.distance]\<close>:
  unpacking a row that does not hold exactly two matches raises \<open>ValueError\<close>.
\<close>

fun ratio_test :: "dmatch list list \<Rightarrow> dmatch list result" where
  "ratio_test [] = Inr []"
| "ratio_test ([m, n] # rows) =
     rbind (ratio_test rows) (\<lambda>ms. Inr (if passes_ratio m n then m # ms else ms))"
| "ratio_test (_ # rows) = Inl ValueError"

text \<open>The match list before sorting and truncation (lines 52 to 56).\<close>

definition raw_matches ::
  "'d cv2 \<Rightarrow> 'd VideMosaic \<Rightarrow> 'd option \<Rightarrow> 'd option \<Rightarrow> dmatch list result" where
  "raw_matches cv self des_c des_p =
     (if detector_type self = ''sift''
      then rbind (cv2_knnMatch cv (bf self) des_c des_p 2) ratio_test
      else cv2_match cv (bf self) des_c des_p)"

text \<open>\<open>sorted\<close> is stable, and so is \<open>sort_key\<close>.\<close>

definition match ::
  "'d cv2 \<Rightarrow> 'd VideMosaic \<Rightarrow> 'd option \<Rightarrow> 'd option \<Rightarrow> dmatch list result" where
  "match cv self des_c des_p =
     rbind (raw_matches cv self des_c des_p)
       (\<lambda>matches. Inr (take 30 (sort_key distance matches)))"

subsection \<open>\<open>findHomography\<close>\<close>

text \<open>
  \<open>[kp[i].pt for m in matches]\<close>, with \<open>i\<close> the query or the train index of \<open>m\<close>: an index
  out of range raises \<open>IndexError\<close>.
\<close>

definition matched_points :: "keypoint list \<Rightarrow> int list \<Rightarrow> point list result" where
  "matched_points kps idxs = comprehension (\<lambda>i. rbind (py_index kps i) (\<lambda>k. Inr (pt k))) idxs"

text \<open>
  \<open>image_2_points - image_1_points\<close>, two float32 arrays of the same length, subtracted
  entry by entry by NumPy.
\<close>

definition displacements :: "'d cv2 \<Rightarrow> point list \<Rightarrow> point list \<Rightarrow> point list" where
  "displacements cv image_1_points image_2_points =
     map2 (\<lambda>p2 p1. (np_subtract cv (fst p2) (fst p1), np_subtract cv (snd p2) (snd p1)))
       image_2_points image_1_points"

text \<open>
  \<open>np.mean(displacements, axis=0)[0]\<close>: NumPy's float32 mean of the first coordinates
  and of the second coordinates. The mean of an empty array is \<open>(nan, nan)\<close>, written
  \<open>None\<close>.
\<close>

definition mean_displacement :: "'d cv2 \<Rightarrow> point list \<Rightarrow> point option" where
  "mean_displacement cv ds =
     (if ds = [] then None else Some (np_mean cv (map fst ds), np_mean cv (map snd ds)))"

text \<open>
  The two tests of lines 93 and 96, \<open>abs(dx) > abs(dy) * 1.5\<close> and
  \<open>abs(dy) > abs(dx) * 1.5\<close>, with NumPy's product of the float32 scalar and the float
  \<open>1.5\<close>. Every comparison with NaN is false, so an empty match list reaches the \<open>else\<close>
  branch.
\<close>

definition horizontal_motion :: "'d cv2 \<Rightarrow> point option \<Rightarrow> bool" where
  "horizontal_motion cv m =
     (case m of None \<Rightarrow> False | Some (dx, dy) \<Rightarrow> \<bar>dx\<bar> > np_multiply cv \<bar>dy\<bar> 1.5)"

definition vertical_motion :: "'d cv2 \<Rightarrow> point option \<Rightarrow> bool" where
  "vertical_motion cv m =
     (case m of None \<Rightarrow> False | Some (dx, dy) \<Rightarrow> \<bar>dy\<bar> > np_multiply cv \<bar>dx\<bar> 1.5)"

text \<open>
  Lines 103 to 105: \<open>transform_matrix.shape\<close> raises \<open>AttributeError\<close> on \<open>None\<close>; a
  2 by 3 matrix gets the row \<open>[0, 0, 1]\<close> appended by \<open>np.vstack\<close>.
\<close>

definition to_3x3 :: "matrix option \<Rightarrow> matrix result" where
  "to_3x3 transform_matrix =
     (case transform_matrix of
        None \<Rightarrow> Inl (AttributeError ''NoneType object has no attribute shape'')
      | Some t \<Rightarrow> Inr (if shape2 t = (2, 3) then t @ [[0, 0, 1]] else t))"

text \<open>
  Lines 86 to 101: the mean displacement, the classification, and the fit it selects.
  The result is the printed line and \<open>transform_matrix\<close>.
\<close>

definition motion_fit ::
  "'d cv2 \<Rightarrow> point list \<Rightarrow> point list \<Rightarrow> (string \<times> matrix option) result" where
  "motion_fit cv image_1_points image_2_points =
     (let m = mean_displacement cv (displacements cv image_1_points image_2_points) in
      if horizontal_motion cv m then
        rbind (cv2_estimateAffine2D cv image_1_points image_2_points)
          (\<lambda>t. Inr (''Detected Horizontal Motion'', t))
      else if vertical_motion cv m then
        rbind (cv2_estimateAffine2D cv image_1_points image_2_points)
          (\<lambda>t. Inr (''Detected Vertical Motion'', t))
      else
        rbind (cv2_findHomography cv image_1_points image_2_points)
          (\<lambda>t. Inr (''Detected Diagonal/Complex Motion'', t)))"

text \<open>The whole method: the printed line and the returned matrix.\<close>

definition findHomography ::
  "'d cv2 \<Rightarrow> keypoint list \<Rightarrow> keypoint list \<Rightarrow> dmatch list \<Rightarrow> (string \<times> matrix) result" where
  "findHomography cv image_1_kp image_2_kp matches =
     rbind (matched_points image_1_kp (map queryIdx matches)) (\<lambda>image_1_points.
     rbind (matched_points image_2_kp (map trainIdx matches)) (\<lambda>image_2_points.
     rbind (motion_fit cv image_1_points image_2_points) (\<lambda>(line, transform_matrix).
     rbind (to_3x3 transform_matrix) (\<lambda>r. Inr (line, r)))))"

subsection \<open>\<open>warp\<close>\<close>

text \<open>
  Line 120, \<open>output_img[warped_img > 0] = warped_img[warped_img > 0]\<close>: the mask has one
  entry for every sample of every channel, and must have the shape of the canvas.
\<close>

definition merge_images :: "canvas \<Rightarrow> frame \<Rightarrow> canvas result" where
  "merge_images out warped_img =
     (if map (map length) out \<noteq> map (map length) warped_img then Inl IndexError
      else Inr (map2 (map2 (map2 (\<lambda>old v. if 0 < v then real (unat v) else old))) out warped_img))"

definition warp :: "'d cv2 \<Rightarrow> 'd VideMosaic \<Rightarrow> frame \<Rightarrow> matrix \<Rightarrow> 'd VideMosaic result" where
  "warp cv self frame Hm =
     (let dsize = (fst (snd (shape3 (output_img self))), fst (shape3 (output_img self))) in
      rbind (if shape2 Hm = (2, 3) then cv2_warpAffine cv frame Hm dsize
             else cv2_warpPerspective cv frame Hm dsize) (\<lambda>warped_img.
      rbind (merge_images (output_img self) warped_img) (\<lambda>out.
        Inr (self\<lparr>output_img := out\<rparr>))))"

subsection \<open>\<open>process_frame\<close>\<close>

text \<open>\<open>np.matmul\<close> of two matrices: entry \<open>(i, j)\<close> is the sum of \<open>a[i][k] * b[k][j]\<close>.\<close>

definition np_matmul :: "matrix \<Rightarrow> matrix \<Rightarrow> matrix result" where
  "np_matmul a b =
     (if snd (shape2 a) \<noteq> fst (shape2 b) then Inl ValueError
      else Inr (map (\<lambda>row. map (\<lambda>j. sum_list (map (\<lambda>k. row ! k * b ! k ! j) [0..<length b]))
                             [0..<snd (shape2 b)]) a))"

definition process_frame :: "'d cv2 \<Rightarrow> 'd VideMosaic \<Rightarrow> frame \<Rightarrow> 'd VideMosaic result" where
  "process_frame cv self frame =
     (let self1 = self\<lparr>frame_cur := Some frame\<rparr> in
      rbind (cv2_cvtColor cv frame) (\<lambda>frame_gray_cur.
      rbind (cv2_detectAndCompute cv (detector self1) frame_gray_cur) (\<lambda>(kp, des).
        let self2 = self1\<lparr>kp_cur := Some kp, des_cur := Some des\<rparr> in
        rbind (match cv self2 des (des_prev self2)) (\<lambda>matches.
          if length matches < 4 then Inr self2
          else
            rbind (findHomography cv kp (kp_prev self2) matches) (\<lambda>(line, Hi).
            rbind (np_matmul (H_old self2) Hi) (\<lambda>Hn.
            rbind (warp cv (self2\<lparr>self_H := Some Hn\<rparr>) frame Hn) (\<lambda>self3.
              Inr (self3\<lparr>H_old := Hn, kp_prev := kp, des_prev := des,
                          frame_prev := frame\<rparr>))))))))"

subsection \<open>The constructor\<close>

definition process_first_frame ::
  "'d cv2 \<Rightarrow> detector \<Rightarrow> frame \<Rightarrow> (keypoint list \<times> 'd option) result" where
  "process_first_frame cv det first_image =
     rbind (cv2_cvtColor cv first_image) (\<lambda>frame_gray_prev.
       cv2_detectAndCompute cv det frame_gray_prev)"

definition np_zeros3 :: "nat \<Rightarrow> nat \<Rightarrow> nat \<Rightarrow> canvas" where
  "np_zeros3 h w c = replicate h (replicate w (replicate c 0))"

definition np_eye :: "nat \<Rightarrow> matrix" where
  "np_eye n = map (\<lambda>i. map (\<lambda>j. if i = j then 1 else 0) [0..<n]) [0..<n]"

text \<open>\<open>a[i, j] = v\<close> with both indices in range.\<close>

definition set_entry :: "matrix \<Rightarrow> nat \<Rightarrow> nat \<Rightarrow> real \<Rightarrow> matrix" where
  "set_entry a i j v = a[i := (a ! i)[j := v]]"

text \<open>
  The bounds of the slice \<open>a[start:stop]\<close> on an axis of extent \<open>n\<close>: a negative bound
  counts from the end, and both are clipped to the axis. The slice holds the indices
  from the first bound up to, and not including, the second.
\<close>

definition py_slice :: "nat \<Rightarrow> int \<Rightarrow> int \<Rightarrow> nat \<times> nat" where
  "py_slice n start stop =
     (let clip = (\<lambda>i. if i < 0 then max (i + int n) 0 else min i (int n))
      in (nat (clip start), nat (clip stop)))"

text \<open>
  Broadcasting one axis of the assigned array to the extent of the slice: equal extents
  copy index by index, extent 1 is repeated, anything else raises \<open>ValueError\<close>.
\<close>

definition broadcast :: "nat \<Rightarrow> nat \<Rightarrow> (nat \<Rightarrow> nat) option" where
  "broadcast src dst =
     (if src = dst then Some (\<lambda>i. i) else if src = 1 then Some (\<lambda>i. 0) else None)"

text \<open>
  \<open>out[r0:r1, c0:c1, :] = img\<close>; the \<open>uint8\<close> samples are converted to the floats of the
  canvas.
\<close>

definition assign_slice :: "canvas \<Rightarrow> nat \<times> nat \<Rightarrow> nat \<times> nat \<Rightarrow> frame \<Rightarrow> canvas result" where
  "assign_slice out rows cols img =
     (case (broadcast (fst (shape3 img)) (snd rows - fst rows),
            broadcast (fst (snd (shape3 img))) (snd cols - fst cols)) of
        (Some fi, Some fj) \<Rightarrow>
          Inr (map (\<lambda>i. map (\<lambda>j.
                 if fst rows \<le> i \<and> i < snd rows \<and> fst cols \<le> j \<and> j < snd cols
                 then map (\<lambda>v. real (unat v)) (img ! fi (i - fst rows) ! fj (j - fst cols))
                 else out ! i ! j)
               [0..<length (out ! i)]) [0..<length out])
      | _ \<Rightarrow> Inl ValueError)"

text \<open>
  \<open>__init__\<close>. A detector type other than \<open>sift\<close> and \<open>orb\<close> leaves \<open>self.detector\<close> unset,
  and \<open>process_first_frame\<close> raises \<open>AttributeError\<close> when it reads it, after
  \<open>cvtColor\<close>. The extents of the canvas are \<open>int\<close> of the float products of the
  multipliers and the extents of the frame; \<open>int\<close> of an infinity raises
  \<open>OverflowError\<close>, and \<open>np.zeros\<close> raises \<open>ValueError\<close> on a negative extent.
\<close>

definition VideMosaic_init ::
  "'d cv2 \<Rightarrow> frame \<Rightarrow> real \<Rightarrow> real \<Rightarrow> string \<Rightarrow> 'd VideMosaic result" where
  "VideMosaic_init cv first_image output_height_times output_width_times dtype =
     (case (if dtype = ''sift'' then Some (SIFT_create 600, FlannBasedMatcher)
            else if dtype = ''orb'' then Some (ORB_create 600, BFMatcher)
            else None) of
        None \<Rightarrow> rbind (cv2_cvtColor cv first_image) 
                  (\<lambda>g. Inl (AttributeError ''VideMosaic object has no attribute detector''))
      | Some (det, m) \<Rightarrow>
          rbind (process_first_frame cv det first_image) (\<lambda>(kp, des).
            let h = fst (shape3 first_image);
                w = fst (snd (shape3 first_image));
                c = snd (snd (shape3 first_image))
            in case py_float_mul output_height_times (real h) of
                 None \<Rightarrow> Inl OverflowError
               | Some x \<Rightarrow>
                   (case py_float_mul output_width_times (real w) of
                      None \<Rightarrow> Inl OverflowError
                    | Some y \<Rightarrow>
                        let Hc = py_int x; Wc = py_int y
                        in if Hc < 0 \<or> Wc < 0 then Inl ValueError
                           else
                             let w_off = py_int (real_of_int Hc / 1 - real h / 1);
                                 h_off = py_int (real_of_int Wc / 2 - real w / 2)
                             in rbind (assign_slice (np_zeros3 (nat Hc) (nat Wc) c)
                                         (py_slice (nat Hc) w_off (w_off + int h))
                                         (py_slice (nat Wc) h_off (h_off + int w))
                                         first_image) (\<lambda>out.
                                  Inr \<lparr>detector_type = dtype, detector = det, bf = m,
                                       visualize = False, frame_prev = first_image,
                                       kp_prev = kp, des_prev = des, output_img = out,
                                       w_offset = w_off, h_offset = h_off,
                                       H_old = set_entry (set_entry (np_eye 3) 0 2
                                                 (real_of_int h_off)) 1 2 (real_of_int w_off),
                                       frame_cur = None, kp_cur = None, des_cur = None,
                                       self_H = None\<rparr>))))"

subsection \<open>\<open>main\<close>\<close>

text \<open>
  The loop of \<open>main\<close> after the first frame. The video is the list of the frames that
  \<open>cap.read()\<close> delivers, each with the key that \<open>cv2.waitKey(1)\<close> returns after it; the key
  \<open>q\<close> (113) ends the loop. Nothing catches an exception of \<open>process_frame\<close>.
\<close>

fun main_loop :: "'d cv2 \<Rightarrow> 'd VideMosaic \<Rightarrow> (frame \<times> int) list \<Rightarrow> 'd VideMosaic result" where
  "main_loop cv video_mosaic [] = Inr video_mosaic"
| "main_loop cv video_mosaic ((frame, key) # reads) =
     rbind (process_frame cv video_mosaic frame) (\<lambda>vm.
       if key AND 255 = 113 then Inr vm else main_loop cv vm reads)"

text \<open>
  \<open>main\<close>: the result is the image written to \<open>mosaic.jpg\<close>, or \<open>None\<close> when the video
  cannot be opened or has no frame. The constructor gets its default multipliers, 3
  and the float \<open>1.2\<close>.
\<close>

definition main :: "'d cv2 \<Rightarrow> bool \<Rightarrow> (frame \<times> int) list \<Rightarrow> canvas option result" where
  "main cv opened reads =
     (if \<not> opened then Inr None
      else case reads of
        [] \<Rightarrow> Inr None
      | (frame, key) # rest \<Rightarrow>
          rbind (VideMosaic_init cv frame 3 float_1_2 ''sift'') (\<lambda>video_mosaic.
          rbind (main_loop cv video_mosaic rest) (\<lambda>vm. Inr (Some (output_img vm)))))"

section \<open>Runs, and what is assumed of OpenCV\<close>

text \<open>The objects that a run can hold: built by the constructor, then stepped by \<open>process_frame\<close>.\<close>

inductive reachable :: "'d cv2 \<Rightarrow> 'd VideMosaic \<Rightarrow> bool" for cv :: "'d cv2" where
  constructed: "VideMosaic_init cv first_image ht wt dtype = Inr self \<Longrightarrow> reachable cv self"
| stepped: "reachable cv self \<Longrightarrow> process_frame cv self frame = Inr self' \<Longrightarrow> reachable cv self'"

text \<open>
  The shapes OpenCV documents for its fits: \<open>estimateAffine2D\<close> returns a 2 by 3 matrix
  and \<open>findHomography\<close> a 3 by 3 matrix, when they return one.
\<close>

definition fit_shapes :: "'d cv2 \<Rightarrow> bool" where
  "fit_shapes cv \<longleftrightarrow>
     (\<forall>p q M. cv2_estimateAffine2D cv p q = Inr (Some M) \<longrightarrow> shape2 M = (2, 3)) \<and>
     (\<forall>p q M. cv2_findHomography cv p q = Inr (Some M) \<longrightarrow> shape2 M = (3, 3))"

text \<open>
  OpenCV's matchers return at once, with no match, when the query descriptors are
  empty; the Python binding passes \<open>None\<close> as an empty array.
\<close>

definition empty_query_no_match :: "'d cv2 \<Rightarrow> bool" where
  "empty_query_no_match cv \<longleftrightarrow>
     (\<forall>m t k. cv2_knnMatch cv m None t k = Inr []) \<and> (\<forall>m t. cv2_match cv m None t = Inr [])"

section \<open>A synthetic library for the worked examples\<close>

text \<open>
  A small stand-in for OpenCV, used only where a theorem is applied to concrete frames.
  Every non-zero gray sample is a keypoint at (column, row), described by its value;
  descriptors are matched position by position, at the distance of their values; the
  fits know translations only, and find no solution when the correspondences disagree;
  the resampler shifts the frame by the translation of the transform. Its float32
  operations are the exact ones: on the small integers, halves and quarters of the
  examples, float32 arithmetic is exact.
\<close>

definition demo_cvtColor :: "frame \<Rightarrow> gray result" where
  "demo_cvtColor f = Inr (map (map (\<lambda>p. case p of [] \<Rightarrow> 0 | v # _ \<Rightarrow> v)) f)"

definition demo_features :: "gray \<Rightarrow> (keypoint \<times> 8 word) list" where
  "demo_features g =
     concat (map (\<lambda>(i, row).
       concat (map (\<lambda>(j, v). if v = 0 then [] else [(\<lparr>pt = (real j, real i)\<rparr>, v)])
                   (enumerate 0 row)))
       (enumerate 0 g))"

definition demo_detectAndCompute ::
  "detector \<Rightarrow> gray \<Rightarrow> (keypoint list \<times> 8 word list option) result" where
  "demo_detectAndCompute det g =
     (let fs = demo_features g
      in Inr (map fst fs, if fs = [] then None else Some (map snd fs)))"

definition demo_distance :: "8 word \<Rightarrow> 8 word \<Rightarrow> real" where
  "demo_distance a b = \<bar>real (unat a) - real (unat b)\<bar>"

definition demo_knnMatch ::
  "matcher \<Rightarrow> 8 word list option \<Rightarrow> 8 word list option \<Rightarrow> nat \<Rightarrow> dmatch list list result" where
  "demo_knnMatch m q t k =
     (case q of
        None \<Rightarrow> Inr []
      | Some a \<Rightarrow>
          (case t of
             None \<Rightarrow> Inl CvError
           | Some b \<Rightarrow>
               Inr (map (\<lambda>i. map (\<lambda>j. \<lparr>queryIdx = int i, trainIdx = int j,
                                          distance = demo_distance (a ! i) (b ! j)\<rparr>)
                                  (take k [i, Suc i mod length b]))
                        [0..<min (length a) (length b)])))"

definition demo_match ::
  "matcher \<Rightarrow> 8 word list option \<Rightarrow> 8 word list option \<Rightarrow> dmatch list result" where
  "demo_match m q t =
     (case q of
        None \<Rightarrow> Inr []
      | Some a \<Rightarrow>
          (case t of
             None \<Rightarrow> Inl CvError
           | Some b \<Rightarrow>
               Inr (map (\<lambda>i. \<lparr>queryIdx = int i, trainIdx = int i,
                                distance = demo_distance (a ! i) (b ! i)\<rparr>)
                        [0..<min (length a) (length b)])))"

text \<open>The translation of the first correspondence, when all of them agree on it.\<close>

definition demo_translation :: "point list \<Rightarrow> point list \<Rightarrow> point option result" where
  "demo_translation p1 p2 =
     (case map2 (\<lambda>q p. (fst q - fst p, snd q - snd p)) p2 p1 of
        [] \<Rightarrow> Inl CvError
      | d # ds \<Rightarrow> Inr (if list_all (\<lambda>e. e = d) ds then Some d else None))"

definition demo_estimateAffine2D :: "point list \<Rightarrow> point list \<Rightarrow> matrix option result" where
  "demo_estimateAffine2D p1 p2 =
     rbind (demo_translation p1 p2)
       (\<lambda>r. Inr (map_option (\<lambda>d. [[1, 0, fst d], [0, 1, snd d]]) r))"

definition demo_findHomography :: "point list \<Rightarrow> point list \<Rightarrow> matrix option result" where
  "demo_findHomography p1 p2 =
     rbind (demo_translation p1 p2)
       (\<lambda>r. Inr (map_option (\<lambda>d. [[1, 0, fst d], [0, 1, snd d], [0, 0, 1]]) r))"

definition demo_shift :: "frame \<Rightarrow> matrix \<Rightarrow> nat \<times> nat \<Rightarrow> frame result" where
  "demo_shift f M dsize =
     (if shape2 M \<noteq> (2, 3) \<and> shape2 M \<noteq> (3, 3) then Inl CvError
      else
        let tx = py_int (M ! 0 ! 2); ty = py_int (M ! 1 ! 2);
            h = int (fst (shape3 f)); w = int (fst (snd (shape3 f)));
            c = snd (snd (shape3 f))
        in Inr (map (\<lambda>i. map (\<lambda>j.
                  let si = int i - ty; sj = int j - tx
                  in if 0 \<le> si \<and> si < h \<and> 0 \<le> sj \<and> sj < w then f ! nat si ! nat sj
                     else replicate c 0)
                [0..<fst dsize]) [0..<snd dsize]))"

definition demo_cv :: "8 word list cv2" where
  "demo_cv =
     \<lparr>cv2_cvtColor = demo_cvtColor,
      cv2_detectAndCompute = demo_detectAndCompute,
      cv2_knnMatch = demo_knnMatch,
      cv2_match = demo_match,
      cv2_estimateAffine2D = demo_estimateAffine2D,
      cv2_findHomography = demo_findHomography,
      cv2_warpAffine = demo_shift,
      cv2_warpPerspective = demo_shift,
      np_subtract = (\<lambda>a b. a - b),
      np_mean = (\<lambda>xs. sum_list xs / real (length xs)),
      np_multiply = (\<lambda>a b. a * b)\<rparr>"

text \<open>
  The object that the constructor builds from a one-row frame with four bright samples
  and the SIFT configuration, the same object in the ORB configuration, and two
  descriptor arrays of 32 entries.
\<close>

definition demo_frame0 :: frame where
  "demo_frame0 = [[[1], [2], [3], [4], [0]]]"

definition demo_sift :: "8 word list VideMosaic" where
  "demo_sift =
     \<lparr>detector_type = ''sift'', detector = SIFT_create 600, bf = FlannBasedMatcher,
      visualize = False, frame_prev = demo_frame0,
      kp_prev = [\<lparr>pt = (0, 0)\<rparr>, \<lparr>pt = (1, 0)\<rparr>, \<lparr>pt = (2, 0)\<rparr>, \<lparr>pt = (3, 0)\<rparr>],
      des_prev = Some [1, 2, 3, 4],
      output_img = [[[0], [0], [0], [0], [0], [0]], [[0], [0], [0], [0], [0], [0]],
                    [[1], [2], [3], [4], [0], [0]]],
      w_offset = 2, h_offset = 0, H_old = [[1, 0, 0], [0, 1, 2], [0, 0, 1]],
      frame_cur = None, kp_cur = None, des_cur = None, self_H = None\<rparr>"


text \<open>
  Frames for the examples: the content of \<open>demo_frame0\<close> moved right by one sample; a
  frame with three bright samples only; a black frame; two frames whose samples moved
  by different amounts (relative to \<open>demo_frame0\<close> and to \<open>demo_frame1\<close>).
\<close>

definition demo_frame1 :: frame where
  "demo_frame1 = [[[0], [1], [2], [3], [4]]]"

definition demo_frame_three :: frame where
  "demo_frame_three = [[[0], [0], [1], [2], [3]]]"

definition demo_frame_black :: frame where
  "demo_frame_black = [[[0], [0], [0], [0], [0]]]"

definition demo_frame_torn0 :: frame where
  "demo_frame_torn0 = [[[1], [2], [0], [3], [4]]]"

definition demo_frame_torn1 :: frame where
  "demo_frame_torn1 = [[[1], [0], [2], [3], [4]]]"




text \<open>
  The keypoints of \<open>demo_frame1\<close>, its four matches with \<open>demo_frame0\<close>, and the object
  after \<open>demo_frame1\<close> has been processed.
\<close>

definition demo_kp1 :: "keypoint list" where
  "demo_kp1 = [\<lparr>pt = (1, 0)\<rparr>, \<lparr>pt = (2, 0)\<rparr>, \<lparr>pt = (3, 0)\<rparr>, \<lparr>pt = (4, 0)\<rparr>]"

definition demo_matches4 :: "dmatch list" where
  "demo_matches4 = map (\<lambda>i. \<lparr>queryIdx = i, trainIdx = i, distance = 0\<rparr>) [0, 1, 2, 3]"

definition demo_sift1 :: "8 word list VideMosaic" where
  "demo_sift1 =
     demo_sift\<lparr>frame_prev := demo_frame1, kp_prev := demo_kp1,
               H_old := [[1, 0, - 1], [0, 1, 2], [0, 0, 1]],
               frame_cur := Some demo_frame1, kp_cur := Some demo_kp1,
               des_cur := Some (Some [1, 2, 3, 4]),
               self_H := Some [[1, 0, - 1], [0, 1, 2], [0, 0, 1]]\<rparr>"

text \<open>
  The inputs of the merge property: a canvas filled with one value, and a frame that is
  zero but for a rectangle of rows and columns (each a pair: first index, index after
  the last) filled with one value.
\<close>

definition filled :: "nat \<Rightarrow> nat \<Rightarrow> nat \<Rightarrow> real \<Rightarrow> canvas" where
  "filled h w c A = replicate h (replicate w (replicate c A))"

definition rectangle_frame ::
  "nat \<Rightarrow> nat \<Rightarrow> nat \<Rightarrow> nat \<times> nat \<Rightarrow> nat \<times> nat \<Rightarrow> 8 word \<Rightarrow> frame" where
  "rectangle_frame h w c rows cols B =
     map (\<lambda>i. map (\<lambda>j. replicate c (if fst rows \<le> i \<and> i < snd rows \<and> fst cols \<le> j \<and> j < snd cols
                                      then B else 0)) [0..<w]) [0..<h]"



text \<open>A one-row frame of seven samples: its width times 1.2 is not a whole number.\<close>

definition demo_frame7 :: frame where
  "demo_frame7 = [[[1], [1], [1], [1], [1], [1], [1]]]"

section \<open>Basic facts\<close>

lemma rbind_Inl [simp]: "rbind (Inl e) f = Inl e"
  by (simp add: rbind_def)

lemma rbind_Inr [simp]: "rbind (Inr x) f = f x"
  by (simp add: rbind_def)

lemma rbind_eq_Inr:
  "rbind m f = Inr y \<longleftrightarrow> (\<exists>x. m = Inr x \<and> f x = Inr y)"
  by (cases m) simp_all

lemma rbind_cong_Inr:
  assumes "m = m'" "\<And>x. m' = Inr x \<Longrightarrow> f x = g x"
  shows "rbind m f = rbind m' g"
  using assms by (cases m') simp_all

section \<open>Python floats: the exponent and known products\<close>

text \<open>
  Products that Python computes: \<open>1.2 * 5 = 6.0\<close>, \<open>1.2 * 10 = 12.0\<close>,
  \<open>1.16 * 25 = 28.999999999999996\<close> and \<open>0.1 * 3 = 0.30000000000000004\<close>.
\<close>

lemma py_float_mul_examples:
  "py_float_mul float_1_2 5 = Some 6"
  "py_float_mul float_1_2 10 = Some 12"
  "py_float_mul (5224175567749775 / 4503599627370496) 25 =
     Some (8162774324609023 / 281474976710656)"
  "py_float_mul (3602879701896397 / 36028797018963968) 3 =
     Some (1351079888211149 / 4503599627370496)"
  by code_simp+

section \<open>The synthetic library at work\<close>

lemma demo_init: "VideMosaic_init demo_cv demo_frame0 3 float_1_2 ''sift'' = Inr demo_sift"
  by code_simp

lemma demo_step1: "process_frame demo_cv demo_sift demo_frame1 = Inr demo_sift1"
  by code_simp

lemma demo_fit_shapes: "fit_shapes demo_cv"
  by (auto simp: fit_shapes_def demo_cv_def demo_estimateAffine2D_def demo_findHomography_def
      rbind_eq_Inr shape2_def)

lemma demo_empty_query: "empty_query_no_match demo_cv"
  by (simp add: empty_query_no_match_def demo_cv_def demo_knnMatch_def demo_match_def)

section \<open>Matching: sorted and truncated to 30\<close>





section \<open>Skipping a frame\<close>

lemma match_cur_fields [simp]:
  "match cv (self\<lparr>frame_cur := a\<rparr>) = match cv self"
  "match cv (self\<lparr>kp_cur := b\<rparr>) = match cv self"
  "match cv (self\<lparr>des_cur := c\<rparr>) = match cv self"
  "match cv (self\<lparr>self_H := d\<rparr>) = match cv self"
  by (simp_all add: match_def raw_matches_def fun_eq_iff)

text \<open>
  \<open>frame_cur\<close>, \<open>kp_cur\<close> and \<open>des_cur\<close> are scratch attributes: \<open>process_frame\<close> writes
  them before it reads them, so their old values never matter.
\<close>

lemma process_frame_ignores_cur:
  "process_frame cv (self\<lparr>frame_cur := a, kp_cur := b, des_cur := c\<rparr>) frame =
   process_frame cv self frame"
  unfolding process_frame_def Let_def
  by (auto intro!: rbind_cong_Inr simp: warp_def Let_def)

text \<open>
  Claim C1. When the frame is converted and described without an exception and matching
  its descriptors against the previous ones yields fewer than 4 matches,
  \<open>process_frame\<close> returns normally; the object it leaves differs from the one it found
  in the scratch attributes \<open>frame_cur\<close>, \<open>kp_cur\<close> and \<open>des_cur\<close> only: the cumulative pose
  \<open>H_old\<close>, the canvas \<open>output_img\<close> and the previous keypoints, descriptors and frame are
  unchanged.
\<close>

theorem process_frame_skips_below_4:
  assumes "cv2_cvtColor cv frame = Inr gray_cur"
    and "cv2_detectAndCompute cv (detector self) gray_cur = Inr (kp, des)"
    and "match cv self des (des_prev self) = Inr matches"
    and "length matches < 4"
  shows "\<exists>self'. process_frame cv self frame = Inr self'
           \<and> self' = self\<lparr>frame_cur := Some frame, kp_cur := Some kp, des_cur := Some des\<rparr>
           \<and> H_old self' = H_old self \<and> output_img self' = output_img self
           \<and> kp_prev self' = kp_prev self \<and> des_prev self' = des_prev self
           \<and> frame_prev self' = frame_prev self"
  using assms by (simp add: process_frame_def)

text \<open>A frame with three bright samples gives exactly three matches, and is skipped.\<close>

theorem process_frame_skips_below_4_witness:
  "cv2_cvtColor demo_cv demo_frame_three = Inr [[0, 0, 1, 2, 3]]
   \<and> cv2_detectAndCompute demo_cv (detector demo_sift) [[0, 0, 1, 2, 3]] =
       Inr ([\<lparr>pt = (2, 0)\<rparr>, \<lparr>pt = (3, 0)\<rparr>, \<lparr>pt = (4, 0)\<rparr>], Some [1, 2, 3])
   \<and> match demo_cv demo_sift (Some [1, 2, 3]) (des_prev demo_sift) = Inr (take 3 demo_matches4)
   \<and> length (take 3 demo_matches4) < 4
   \<and> process_frame demo_cv demo_sift demo_frame_three =
       Inr (demo_sift\<lparr>frame_cur := Some demo_frame_three,
              kp_cur := Some [\<lparr>pt = (2, 0)\<rparr>, \<lparr>pt = (3, 0)\<rparr>, \<lparr>pt = (4, 0)\<rparr>],
              des_cur := Some (Some [1, 2, 3])\<rparr>)"
proof -
  have a: "cv2_cvtColor demo_cv demo_frame_three = Inr [[0, 0, 1, 2, 3]]"
    by code_simp
  have b: "cv2_detectAndCompute demo_cv (detector demo_sift) [[0, 0, 1, 2, 3]] =
       Inr ([\<lparr>pt = (2, 0)\<rparr>, \<lparr>pt = (3, 0)\<rparr>, \<lparr>pt = (4, 0)\<rparr>], Some [1, 2, 3])"
    by code_simp
  have c: "match demo_cv demo_sift (Some [1, 2, 3]) (des_prev demo_sift) = Inr (take 3 demo_matches4)"
    by code_simp
  have d: "length (take 3 demo_matches4) < 4"
    by (simp add: demo_matches4_def)
  from process_frame_skips_below_4 [OF a b c d] a b c d show ?thesis
    by simp
qed

text \<open>
  Claim C8. When feature extraction finds no keypoint in the frame (an empty keypoint
  tuple and \<open>None\<close> for the descriptors), and the matcher returns no match for an empty
  query as OpenCV's matchers do, then matching yields the empty list, and
  \<open>process_frame\<close> skips the frame as it does for too few matches: it returns normally,
  and the cumulative pose, the canvas and the previous keypoints, descriptors and frame
  are unchanged.
\<close>

theorem process_frame_zero_keypoints:
  assumes "empty_query_no_match cv"
    and "cv2_cvtColor cv frame = Inr gray_cur"
    and "cv2_detectAndCompute cv (detector self) gray_cur = Inr ([], None)"
  shows "match cv self None (des_prev self) = Inr []
       \<and> (\<exists>self'. process_frame cv self frame = Inr self'
             \<and> self' = self\<lparr>frame_cur := Some frame, kp_cur := Some [], des_cur := Some None\<rparr>
             \<and> H_old self' = H_old self \<and> output_img self' = output_img self
             \<and> kp_prev self' = kp_prev self \<and> des_prev self' = des_prev self
             \<and> frame_prev self' = frame_prev self)"
proof -
  have "raw_matches cv self None (des_prev self) = Inr []"
    using assms(1) by (simp add: raw_matches_def empty_query_no_match_def)
  then have m: "match cv self None (des_prev self) = Inr []"
    by (simp add: match_def)
  then show ?thesis
    using assms(2,3) by (simp add: process_frame_def)
qed

text \<open>A black frame has no keypoint, and is skipped.\<close>

theorem process_frame_zero_keypoints_witness:
  "empty_query_no_match demo_cv
   \<and> cv2_cvtColor demo_cv demo_frame_black = Inr [[0, 0, 0, 0, 0]]
   \<and> cv2_detectAndCompute demo_cv (detector demo_sift) [[0, 0, 0, 0, 0]] = Inr ([], None)
   \<and> process_frame demo_cv demo_sift demo_frame_black =
       Inr (demo_sift\<lparr>frame_cur := Some demo_frame_black, kp_cur := Some [],
              des_cur := Some None\<rparr>)"
proof -
  have a: "cv2_cvtColor demo_cv demo_frame_black = Inr [[0, 0, 0, 0, 0]]"
    by code_simp
  have b: "cv2_detectAndCompute demo_cv (detector demo_sift) [[0, 0, 0, 0, 0]] = Inr ([], None)"
    by code_simp
  from process_frame_zero_keypoints [OF demo_empty_query a b] demo_empty_query a b
  show ?thesis by simp
qed


section \<open>Chaining the pose\<close>


lemma warp_H_old: "warp cv self frame Hm = Inr self' \<Longrightarrow> H_old self' = H_old self"
  by (auto simp: warp_def rbind_eq_Inr Let_def)




section \<open>The estimator returns 3 by 3 matrices\<close>

lemma np_matmul_length: "np_matmul a b = Inr p \<Longrightarrow> length p = length a"
  by (auto simp: np_matmul_def split: if_splits)

lemma np_matmul_shape:
  assumes "np_matmul a b = Inr p" "a \<noteq> []"
  shows "shape2 p = (length a, snd (shape2 b))"
  using assms by (cases a) (auto simp: np_matmul_def shape2_def split: if_splits)

lemma to_3x3_shape:
  assumes "to_3x3 t = Inr M" "t = Some A" "shape2 A = (2, 3) \<or> shape2 A = (3, 3)"
  shows "shape2 M = (3, 3)"
  using assms by (auto simp: to_3x3_def shape2_def split: list.splits if_splits)

lemma motion_fit_cases:
  assumes "motion_fit cv p1 p2 = Inr (line, t)"
  shows "(cv2_estimateAffine2D cv p1 p2 = Inr t \<and> line \<noteq> ''Detected Diagonal/Complex Motion'')
       \<or> (cv2_findHomography cv p1 p2 = Inr t \<and> line = ''Detected Diagonal/Complex Motion'')"
  using assms by (auto simp: motion_fit_def Let_def rbind_eq_Inr split: if_splits)

text \<open>
  Claim C5. With the shapes OpenCV documents for its fits, every matrix that
  \<open>findHomography\<close> returns is 3 by 3. On the affine path (horizontal or vertical
  motion) it is the 2 by 3 fit of \<open>estimateAffine2D\<close> with the row \<open>[0, 0, 1]\<close> appended,
  so that its bottom row is \<open>[0, 0, 1]\<close>; on the projective path it is the matrix of
  \<open>cv2.findHomography\<close>, as it is.
\<close>

theorem findHomography_returns_3x3:
  assumes "fit_shapes cv"
    and "findHomography cv image_1_kp image_2_kp matches = Inr (line, M)"
  shows "shape2 M = (3, 3) \<and>
         (\<exists>p1 p2. matched_points image_1_kp (map queryIdx matches) = Inr p1
            \<and> matched_points image_2_kp (map trainIdx matches) = Inr p2
            \<and> ((\<exists>A. cv2_estimateAffine2D cv p1 p2 = Inr (Some A) \<and> shape2 A = (2, 3)
                     \<and> M = A @ [[0, 0, 1]] \<and> M ! 2 = [0, 0, 1]
                     \<and> line \<noteq> ''Detected Diagonal/Complex Motion'')
               \<or> (cv2_findHomography cv p1 p2 = Inr (Some M)
                     \<and> line = ''Detected Diagonal/Complex Motion'')))"
proof -
  from assms(2) obtain p1 p2 t where
    p1: "matched_points image_1_kp (map queryIdx matches) = Inr p1"
    and p2: "matched_points image_2_kp (map trainIdx matches) = Inr p2"
    and fit: "motion_fit cv p1 p2 = Inr (line, t)"
    and t: "to_3x3 t = Inr M"
    by (auto simp: findHomography_def rbind_eq_Inr)
  from t obtain A where A: "t = Some A"
    by (cases t) (simp_all add: to_3x3_def)
  from motion_fit_cases [OF fit] show ?thesis
  proof
    assume a: "cv2_estimateAffine2D cv p1 p2 = Inr t \<and> line \<noteq> ''Detected Diagonal/Complex Motion''"
    then have sh: "shape2 A = (2, 3)"
      using assms(1) A by (auto simp: fit_shapes_def)
    then have M: "M = A @ [[0, 0, 1]]"
      using t A by (simp add: to_3x3_def)
    have "length A = 2" using sh by (simp add: shape2_def)
    then have "M ! 2 = [0, 0, 1]" using M by (simp add: nth_append)
    moreover have "shape2 M = (3, 3)"
      using to_3x3_shape [OF t A] sh by simp
    ultimately show ?thesis using p1 p2 a A sh M by blast
  next
    assume h: "cv2_findHomography cv p1 p2 = Inr t \<and> line = ''Detected Diagonal/Complex Motion''"
    then have sh: "shape2 A = (3, 3)"
      using assms(1) A by (auto simp: fit_shapes_def)
    then have M: "M = A"
      using t A by (simp add: to_3x3_def)
    then show ?thesis using p1 p2 h A sh by blast
  qed
qed

text \<open>The four matches of \<open>demo_frame1\<close>: the affine path, and a 3 by 3 result.\<close>

theorem findHomography_returns_3x3_witness:
  "fit_shapes demo_cv
   \<and> findHomography demo_cv demo_kp1 (kp_prev demo_sift) demo_matches4 =
       Inr (''Detected Horizontal Motion'', [[1, 0, - 1], [0, 1, 0], [0, 0, 1]])
   \<and> shape2 [[1, 0, - 1], [0, 1, 0], [0, 0, 1 :: real]] = (3, 3)"
proof -
  have f: "findHomography demo_cv demo_kp1 (kp_prev demo_sift) demo_matches4 =
       Inr (''Detected Horizontal Motion'', [[1, 0, - 1], [0, 1, 0], [0, 0, 1]])"
    by code_simp
  from findHomography_returns_3x3 [OF demo_fit_shapes f] demo_fit_shapes f
  show ?thesis by simp
qed


section \<open>The affine resampler is never called\<close>

lemma VideMosaic_init_H_old:
  assumes "VideMosaic_init cv first_image ht wt dtype = Inr self"
  shows "H_old self = [[1, 0, real_of_int (h_offset self)], [0, 1, real_of_int (w_offset self)], [0, 0, 1]]"
  using assms
  by (auto simp: VideMosaic_init_def rbind_def Let_def np_eye_def set_entry_def
      upt_conv_Cons split: if_split_asm option.split_asm prod.split_asm sum.split_asm)

lemma process_frame_H_old:
  assumes "process_frame cv self frame = Inr self'"
  shows "H_old self' = H_old self \<or>
         (\<exists>kp matches line Hi. findHomography cv kp (kp_prev self) matches = Inr (line, Hi)
             \<and> np_matmul (H_old self) Hi = Inr (H_old self'))"
  using assms
  by (auto simp: process_frame_def rbind_eq_Inr Let_def warp_def split: if_splits)

lemma findHomography_shape:
  assumes "fit_shapes cv" "findHomography cv k1 k2 ms = Inr (line, M)"
  shows "shape2 M = (3, 3)"
proof -
  from assms(2) obtain p1 p2 t where
     fit: "motion_fit cv p1 p2 = Inr (line, t)"
    and t: "to_3x3 t = Inr M"
    by (auto simp: findHomography_def rbind_eq_Inr)
  from t obtain A where A: "t = Some A"
    by (cases t) (simp_all add: to_3x3_def)
  have "shape2 A = (2, 3) \<or> shape2 A = (3, 3)"
    using motion_fit_cases [OF fit] assms(1) A by (auto simp: fit_shapes_def)
  then show ?thesis using to_3x3_shape [OF t A] by simp
qed

lemma chained_shape:
  assumes "shape2 a = (3, 3)" "shape2 b = (3, 3)" "np_matmul a b = Inr p"
  shows "shape2 p = (3, 3)"
proof -
  have "a \<noteq> []" using assms(1) by (auto simp: shape2_def)
  from np_matmul_shape [OF assms(3) this] assms(1,2) show ?thesis
    by (simp add: shape2_def)
qed

lemma reachable_pose_3x3:
  assumes "fit_shapes cv" "reachable cv self"
  shows "shape2 (H_old self) = (3, 3)"
  using assms(2)
proof induction
  case (constructed first_image ht wt dtype self)
  then show ?case
    by (simp add: VideMosaic_init_H_old shape2_def)
next
  case (stepped self frame self')
  from process_frame_H_old [OF stepped.hyps(2)] show ?case
  proof
    assume "H_old self' = H_old self"
    then show ?thesis using stepped.IH by simp
  next
    assume "\<exists>kp matches line Hi. findHomography cv kp (kp_prev self) matches = Inr (line, Hi)
             \<and> np_matmul (H_old self) Hi = Inr (H_old self')"
    then obtain kp matches line Hi where
      f: "findHomography cv kp (kp_prev self) matches = Inr (line, Hi)"
      and m: "np_matmul (H_old self) Hi = Inr (H_old self')"
      by blast
    from chained_shape [OF stepped.IH findHomography_shape [OF assms(1) f] m]
    show ?thesis .
  qed
qed


lemma match_ignores_warpAffine [simp]:
  "match (cv\<lparr>cv2_warpAffine := wa\<rparr>) self = match cv self"
  by (simp add: match_def raw_matches_def fun_eq_iff)

lemma horizontal_motion_ignores_warpAffine [simp]:
  "horizontal_motion (cv\<lparr>cv2_warpAffine := wa\<rparr>) m = horizontal_motion cv m"
  by (cases m) (auto simp: horizontal_motion_def)

lemma vertical_motion_ignores_warpAffine [simp]:
  "vertical_motion (cv\<lparr>cv2_warpAffine := wa\<rparr>) m = vertical_motion cv m"
  by (cases m) (auto simp: vertical_motion_def)

lemma mean_displacement_ignores_warpAffine [simp]:
  "mean_displacement (cv\<lparr>cv2_warpAffine := wa\<rparr>) (displacements (cv\<lparr>cv2_warpAffine := wa\<rparr>) p q)
     = mean_displacement cv (displacements cv p q)"
  by (simp add: mean_displacement_def displacements_def)

lemma findHomography_ignores_warpAffine [simp]:
  "findHomography (cv\<lparr>cv2_warpAffine := wa\<rparr>) = findHomography cv"
  by (simp add: findHomography_def motion_fit_def Let_def fun_eq_iff cong: if_cong)

lemma warp_perspective:
  assumes "length Hm = 3"
  shows "warp cv self frame Hm =
           rbind (cv2_warpPerspective cv frame Hm
                    (fst (snd (shape3 (output_img self))), fst (shape3 (output_img self))))
             (\<lambda>warped_img. rbind (merge_images (output_img self) warped_img)
                (\<lambda>out. Inr (self\<lparr>output_img := out\<rparr>)))"
  using assms by (simp add: warp_def shape2_def Let_def)

lemma warp_ignores_warpAffine:
  assumes "length Hm = 3"
  shows "warp (cv\<lparr>cv2_warpAffine := wa\<rparr>) self frame Hm = warp cv self frame Hm"
  using assms by (simp add: warp_perspective)

lemma process_frame_ignores_warpAffine:
  assumes "length (H_old self) = 3"
  shows "process_frame (cv\<lparr>cv2_warpAffine := wa\<rparr>) self frame = process_frame cv self frame"
  unfolding process_frame_def Let_def
  using assms
  by (auto intro!: rbind_cong_Inr simp: warp_ignores_warpAffine dest!: np_matmul_length)

text \<open>
  Claim C10. With the shapes OpenCV documents for its fits, in every object that a run
  can hold the cumulative pose is 3 by 3; every transform that the estimator returns
  is 3 by 3, and so is its product with the pose, which is what \<open>process_frame\<close> passes
  to \<open>warp\<close>; on it \<open>warp\<close> takes the branch of \<open>warpPerspective\<close>. So \<open>process_frame\<close> never
  calls \<open>warpAffine\<close>: replacing that entry point by anything changes no result.
\<close>

theorem affine_resampling_unreachable:
  assumes "fit_shapes cv" and "reachable cv self"
  shows "shape2 (H_old self) = (3, 3)
       \<and> process_frame (cv\<lparr>cv2_warpAffine := wa\<rparr>) self frame = process_frame cv self frame
       \<and> (\<forall>kp matches line Hi Hn self2.
            findHomography cv kp (kp_prev self) matches = Inr (line, Hi) \<longrightarrow>
            np_matmul (H_old self) Hi = Inr Hn \<longrightarrow>
              shape2 Hi = (3, 3) \<and> shape2 Hn = (3, 3) \<and>
              warp cv self2 frame Hn =
                rbind (cv2_warpPerspective cv frame Hn
                         (fst (snd (shape3 (output_img self2))), fst (shape3 (output_img self2))))
                  (\<lambda>warped_img. rbind (merge_images (output_img self2) warped_img)
                     (\<lambda>out. Inr (self2\<lparr>output_img := out\<rparr>))))"
proof -
  have inv: "shape2 (H_old self) = (3, 3)"
    using assms by (rule reachable_pose_3x3)
  then have len: "length (H_old self) = 3"
    by (simp add: shape2_def)
  have "shape2 Hi = (3, 3) \<and> shape2 Hn = (3, 3) \<and>
        warp cv self2 frame Hn =
          rbind (cv2_warpPerspective cv frame Hn
                   (fst (snd (shape3 (output_img self2))), fst (shape3 (output_img self2))))
            (\<lambda>warped_img. rbind (merge_images (output_img self2) warped_img)
               (\<lambda>out. Inr (self2\<lparr>output_img := out\<rparr>)))"
    if f: "findHomography cv kp (kp_prev self) matches = Inr (line, Hi)"
      and m: "np_matmul (H_old self) Hi = Inr Hn"
    for kp matches line Hi Hn and self2 :: "'a VideMosaic"
  proof -
    have hi: "shape2 Hi = (3, 3)"
      using findHomography_shape [OF assms(1) f] .
    have hn: "shape2 Hn = (3, 3)"
      using chained_shape [OF inv hi m] .
    then have "length Hn = 3" by (simp add: shape2_def)
    from warp_perspective [OF this] hi hn show ?thesis by simp
  qed
  with inv process_frame_ignores_warpAffine [OF len] show ?thesis
    by blast
qed

text \<open>
  A library whose \<open>warpAffine\<close> always raises processes \<open>demo_frame1\<close>, which moved
  horizontally, all the same.
\<close>

theorem affine_resampling_unreachable_witness:
  "fit_shapes demo_cv
   \<and> reachable demo_cv demo_sift
   \<and> shape2 (H_old demo_sift) = (3, 3)
   \<and> process_frame (demo_cv\<lparr>cv2_warpAffine := \<lambda>f M d. Inl CvError\<rparr>) demo_sift demo_frame1 =
       Inr demo_sift1"
proof -
  have r: "reachable demo_cv demo_sift"
    using demo_init by (rule reachable.constructed)
  from affine_resampling_unreachable [OF demo_fit_shapes r, of "\<lambda>f M d. Inl CvError" demo_frame1]
    demo_fit_shapes r demo_step1
  show ?thesis by simp
qed

section \<open>A fit that finds no solution\<close>

text \<open>
  Claim C9, as the code has it. When at least 4 matches are found and the fit that the
  classification selects returns no matrix (\<open>None\<close>), reading \<open>transform_matrix.shape\<close>
  raises \<open>AttributeError\<close> in \<open>findHomography\<close>; nothing catches it, so it leaves
  \<open>process_frame\<close> and the loop of \<open>main\<close>, and the run ends without a mosaic. The
  exception carries the fixed message of the attribute lookup: no frame index and no
  reason.
\<close>

theorem failed_fit_raises_AttributeError:
  assumes "cv2_cvtColor cv frame = Inr gray_cur"
    and "cv2_detectAndCompute cv (detector self) gray_cur = Inr (kp, des)"
    and "match cv self des (des_prev self) = Inr matches"
    and "4 \<le> length matches"
    and "matched_points kp (map queryIdx matches) = Inr cur"
    and "matched_points (kp_prev self) (map trainIdx matches) = Inr prev"
    and "motion_fit cv cur prev = Inr (line, None)"
  shows "findHomography cv kp (kp_prev self) matches =
           Inl (AttributeError ''NoneType object has no attribute shape'')
       \<and> process_frame cv self frame =
           Inl (AttributeError ''NoneType object has no attribute shape'')
       \<and> main_loop cv self ((frame, key) # reads) =
           Inl (AttributeError ''NoneType object has no attribute shape'')"
proof -
  have f: "findHomography cv kp (kp_prev self) matches =
           Inl (AttributeError ''NoneType object has no attribute shape'')"
    using assms(5,6,7) by (simp add: findHomography_def to_3x3_def)
  have p: "process_frame cv self frame =
           Inl (AttributeError ''NoneType object has no attribute shape'')"
    using assms(1,2,3,4) f by (simp add: process_frame_def)
  from f p show ?thesis by simp
qed

text \<open>
  A frame whose samples moved by different amounts: the translation fit finds no
  consensus.
\<close>

theorem failed_fit_raises_AttributeError_witness:
  "cv2_cvtColor demo_cv demo_frame_torn0 = Inr [[1, 2, 0, 3, 4]]
   \<and> cv2_detectAndCompute demo_cv (detector demo_sift) [[1, 2, 0, 3, 4]] =
       Inr ([\<lparr>pt = (0, 0)\<rparr>, \<lparr>pt = (1, 0)\<rparr>, \<lparr>pt = (3, 0)\<rparr>, \<lparr>pt = (4, 0)\<rparr>], Some [1, 2, 3, 4])
   \<and> match demo_cv demo_sift (Some [1, 2, 3, 4]) (des_prev demo_sift) = Inr demo_matches4
   \<and> 4 \<le> length demo_matches4
   \<and> matched_points [\<lparr>pt = (0, 0)\<rparr>, \<lparr>pt = (1, 0)\<rparr>, \<lparr>pt = (3, 0)\<rparr>, \<lparr>pt = (4, 0)\<rparr>]
         (map queryIdx demo_matches4) = Inr [(0, 0), (1, 0), (3, 0), (4, 0)]
   \<and> matched_points (kp_prev demo_sift) (map trainIdx demo_matches4) =
         Inr [(0, 0), (1, 0), (2, 0), (3, 0)]
   \<and> motion_fit demo_cv [(0, 0), (1, 0), (3, 0), (4, 0)] [(0, 0), (1, 0), (2, 0), (3, 0)] =
         Inr (''Detected Horizontal Motion'', None)
   \<and> process_frame demo_cv demo_sift demo_frame_torn0 =
         Inl (AttributeError ''NoneType object has no attribute shape'')
   \<and> main_loop demo_cv demo_sift [(demo_frame_torn0, 0), (demo_frame1, 0)] =
         Inl (AttributeError ''NoneType object has no attribute shape'')"
proof -
  have a: "cv2_cvtColor demo_cv demo_frame_torn0 = Inr [[1, 2, 0, 3, 4]]"
    by code_simp
  have b: "cv2_detectAndCompute demo_cv (detector demo_sift) [[1, 2, 0, 3, 4]] =
       Inr ([\<lparr>pt = (0, 0)\<rparr>, \<lparr>pt = (1, 0)\<rparr>, \<lparr>pt = (3, 0)\<rparr>, \<lparr>pt = (4, 0)\<rparr>], Some [1, 2, 3, 4])"
    by code_simp
  have c: "match demo_cv demo_sift (Some [1, 2, 3, 4]) (des_prev demo_sift) = Inr demo_matches4"
    by code_simp
  have d: "4 \<le> length demo_matches4"
    by (simp add: demo_matches4_def)
  have e: "matched_points [\<lparr>pt = (0, 0)\<rparr>, \<lparr>pt = (1, 0)\<rparr>, \<lparr>pt = (3, 0)\<rparr>, \<lparr>pt = (4, 0)\<rparr>]
         (map queryIdx demo_matches4) = Inr [(0, 0), (1, 0), (3, 0), (4, 0)]"
    by code_simp
  have f: "matched_points (kp_prev demo_sift) (map trainIdx demo_matches4) =
         Inr [(0, 0), (1, 0), (2, 0), (3, 0)]"
    by code_simp
  have g: "motion_fit demo_cv [(0, 0), (1, 0), (3, 0), (4, 0)] [(0, 0), (1, 0), (2, 0), (3, 0)] =
         Inr (''Detected Horizontal Motion'', None)"
    by code_simp
  from failed_fit_raises_AttributeError [OF a b c d e f g, of 0 "[(demo_frame1, 0)]"]
    a b c d e f g
  show ?thesis by simp
qed

text \<open>
  The claim as stated fails: a run that fails on its second frame and a run that fails
  on its third frame end with the same exception, so the failure does not identify the
  frame.
\<close>

theorem failure_carries_no_frame_index:
  "main demo_cv True [(demo_frame0, 0), (demo_frame_torn0, 0)] =
     Inl (AttributeError ''NoneType object has no attribute shape'')
   \<and> main demo_cv True [(demo_frame0, 0), (demo_frame1, 0), (demo_frame_torn1, 0)] =
     Inl (AttributeError ''NoneType object has no attribute shape'')"
  by code_simp


section \<open>Merging a warped frame into the canvas\<close>

lemma same_shape_lengths:
  assumes "map (map length) (out :: 'a list list list) = map (map length) (w :: 'b list list list)"
  shows "length out = length w"
    and "i < length out \<Longrightarrow> length (out ! i) = length (w ! i)"
    and "i < length out \<Longrightarrow> j < length (out ! i) \<Longrightarrow> length (out ! i ! j) = length (w ! i ! j)"
proof -
  show l: "length out = length w"
    using assms by (metis length_map)
  show r: "length (out ! i) = length (w ! i)" if "i < length out"
  proof -
    have "map length (out ! i) = map length (w ! i)"
      using assms that l by (metis nth_map)
    then show ?thesis by (metis length_map)
  qed
  show "length (out ! i ! j) = length (w ! i ! j)" if "i < length out" "j < length (out ! i)"
  proof -
    have "map length (out ! i) = map length (w ! i)"
      using assms that l by (metis nth_map)
    then show ?thesis using that r by (metis nth_map)
  qed
qed

lemma merge_images_sample:
  assumes "map (map length) out = map (map length) warped_img"
    and "i < length out" "j < length (out ! i)" "c < length (out ! i ! j)"
  shows "map2 (map2 (map2 (\<lambda>old v. if 0 < v then real (unat v) else old))) out warped_img ! i ! j ! c
         = (if warped_img ! i ! j ! c = 0 then out ! i ! j ! c
            else real (unat (warped_img ! i ! j ! c)))"
  using assms same_shape_lengths [OF assms(1)]
  by (simp add: word_greater_zero_iff)

lemma merge_images_shape:
  assumes "map (map length) out = map (map length) (warped_img :: frame)"
  shows "map (map length) (map2 (map2 (map2 (\<lambda>old v. if 0 < v then real (unat v) else old))) out warped_img)
         = map (map length) (out :: canvas)"
  using assms
proof (induction out arbitrary: warped_img)
  case Nil
  then show ?case by simp
next
  case (Cons r out)
  then obtain r' w' where w: "warped_img = r' # w'" by (cases warped_img) auto
  have rr: "map length r = map length r'" using Cons.prems w by simp
  have "map length (map2 (map2 (\<lambda>old v. if 0 < v then real (unat v) else old)) r r') = map length r"
    using rr
  proof (induction r arbitrary: r')
    case Nil
    then show ?case by simp
  next
    case (Cons p r)
    then show ?case by (cases r') auto
  qed
  then show ?case using Cons w by simp
qed


lemma map2_replicate_upt:
  "map2 f (replicate n x) (map g [0..<n]) = map (\<lambda>i. f x (g i)) [0..<n]"
  by (rule nth_equalityI) simp_all

lemma map2_replicate_replicate:
  "map2 f (replicate n x) (replicate n y) = replicate n (f x y)"
  by (rule nth_equalityI) simp_all

lemma rectangle_same_shape:
  "map (map length) (filled h w c A) = map (map length) (rectangle_frame h w c rows cols B)"
  by (simp add: filled_def rectangle_frame_def comp_def map_replicate_const)

lemma merge_rectangle:
  assumes "B \<noteq> 0"
  shows "merge_images (filled h w c A) (rectangle_frame h w c rows cols B) =
           Inr (map (\<lambda>i. map (\<lambda>j. replicate c
                  (if fst rows \<le> i \<and> i < snd rows \<and> fst cols \<le> j \<and> j < snd cols
                   then real (unat B) else A)) [0..<w]) [0..<h])"
proof -
  have "map2 (map2 (map2 (\<lambda>old v. if 0 < v then real (unat v) else old)))
          (filled h w c A) (rectangle_frame h w c rows cols B) =
        map (\<lambda>i. map (\<lambda>j. replicate c
                  (if fst rows \<le> i \<and> i < snd rows \<and> fst cols \<le> j \<and> j < snd cols
                   then real (unat B) else A)) [0..<w]) [0..<h]"
    unfolding filled_def rectangle_frame_def
    using assms
    by (simp add: map2_replicate_upt map2_replicate_replicate word_greater_zero_iff
        cong: if_cong)
  then show ?thesis
    using rectangle_same_shape [of h w c A rows cols B] by (simp add: merge_images_def)
qed

text \<open>
  Claim C7, as the code has it. The mask \<open>warped_img > 0\<close> is per sample: for a warped
  frame of the shape of the canvas, every non-zero sample of every channel replaces the
  canvas sample at its place, and every zero sample leaves the canvas sample as it is.
  In particular a frame that is zero except for a rectangle of a non-zero value \<open>B\<close>,
  merged into a canvas filled with \<open>A\<close>, gives \<open>B\<close> inside the rectangle and \<open>A\<close> outside.
\<close>

theorem merge_per_sample:
  "(map (map length) out = map (map length) warped_img \<longrightarrow>
      (\<exists>out'. merge_images out warped_img = Inr out'
         \<and> map (map length) out' = map (map length) out
         \<and> (\<forall>i<length out. \<forall>j<length (out ! i). \<forall>c<length (out ! i ! j).
               out' ! i ! j ! c =
                 (if warped_img ! i ! j ! c = 0 then out ! i ! j ! c
                  else real (unat (warped_img ! i ! j ! c))))))
   \<and> (B \<noteq> 0 \<longrightarrow>
        merge_images (filled h w c A) (rectangle_frame h w c rows cols B) =
          Inr (map (\<lambda>i. map (\<lambda>j. replicate c
                 (if fst rows \<le> i \<and> i < snd rows \<and> fst cols \<le> j \<and> j < snd cols
                  then real (unat B) else A)) [0..<w]) [0..<h]))"
proof (intro conjI impI)
  assume sh: "map (map length) out = map (map length) warped_img"
  let ?r = "map2 (map2 (map2 (\<lambda>old v. if 0 < v then real (unat v) else old))) out warped_img"
  have "merge_images out warped_img = Inr ?r"
    using sh by (simp add: merge_images_def)
  moreover have "map (map length) ?r = map (map length) out"
    using sh by (rule merge_images_shape)
  moreover have "\<forall>i<length out. \<forall>j<length (out ! i). \<forall>c<length (out ! i ! j).
      ?r ! i ! j ! c = (if warped_img ! i ! j ! c = 0 then out ! i ! j ! c
                        else real (unat (warped_img ! i ! j ! c)))"
    using merge_images_sample [OF sh] by blast
  ultimately show "\<exists>out'. merge_images out warped_img = Inr out'
         \<and> map (map length) out' = map (map length) out
         \<and> (\<forall>i<length out. \<forall>j<length (out ! i). \<forall>c<length (out ! i ! j).
               out' ! i ! j ! c =
                 (if warped_img ! i ! j ! c = 0 then out ! i ! j ! c
                  else real (unat (warped_img ! i ! j ! c))))"
    by blast
next
  assume "B \<noteq> 0"
  then show "merge_images (filled h w c A) (rectangle_frame h w c rows cols B) =
          Inr (map (\<lambda>i. map (\<lambda>j. replicate c
                 (if fst rows \<le> i \<and> i < snd rows \<and> fst cols \<le> j \<and> j < snd cols
                  then real (unat B) else A)) [0..<w]) [0..<h])"
    by (rule merge_rectangle)
qed

text \<open>A frame with one bright and one black pixel, and a rectangle of the value 9.\<close>

theorem merge_per_sample_witness:
  "map (map length) [[[7, 7, 7 :: real], [7, 7, 7]]] = map (map length) [[[1, 2, 3 :: 8 word], [0, 0, 0]]]
   \<and> merge_images [[[7, 7, 7], [7, 7, 7]]] [[[1, 2, 3], [0, 0, 0]]] = Inr [[[1, 2, 3], [7, 7, 7]]]
   \<and> (9 :: 8 word) \<noteq> 0
   \<and> merge_images (filled 2 3 1 7) (rectangle_frame 2 3 1 (0, 1) (1, 3) 9) =
        Inr [[[7], [9], [9]], [[7], [7], [7]]]"
proof -
  have sh: "map (map length) [[[7, 7, 7 :: real], [7, 7, 7]]] = map (map length) [[[1, 2, 3 :: 8 word], [0, 0, 0]]]"
    by simp
  have b: "(9 :: 8 word) \<noteq> 0" by simp
  have e: "merge_images [[[7, 7, 7], [7, 7, 7]]] [[[1, 2, 3], [0, 0, 0]]] = Inr [[[1, 2, 3], [7, 7, 7]]]"
    by code_simp
  note r = merge_per_sample [of "[[[7, 7, 7], [7, 7, 7]]]" "[[[1, 2, 3], [0, 0, 0]]]" 9 2 3 1 7
      "(0, 1)" "(1, 3)", THEN conjunct2, THEN mp, OF b]
  have "merge_images (filled 2 3 1 7) (rectangle_frame 2 3 1 (0, 1) (1, 3) 9) =
          Inr [[[7], [9], [9]], [[7], [7], [7]]]"
    unfolding r by code_simp
  then show ?thesis using sh b e by simp
qed

text \<open>
  The claim as stated, for pixels, fails: the warped pixel \<open>(0, 5, 0)\<close> is not zero, yet
  it does not replace the canvas pixel \<open>(7, 7, 7)\<close>, which becomes \<open>(7, 5, 7)\<close>: neither
  the warped value nor the old content.
\<close>

theorem merge_mixed_pixel_counterexample:
  "merge_images [[[7, 7, 7]]] [[[0, 5, 0]]] = Inr [[[7, 5, 7]]]
   \<and> merge_images [[[7, 7, 7]]] [[[0, 5, 0]]] \<noteq> Inr [[[0, 5, 0]]]
   \<and> merge_images [[[7, 7, 7]]] [[[0, 5, 0]]] \<noteq> Inr [[[7, 7, 7]]]"
  by (simp add: merge_images_def)

section \<open>The classification of the motion\<close>






section \<open>The constructor: canvas, offsets and initial pose\<close>

lemma py_int_nonneg: "0 \<le> x \<Longrightarrow> py_int x = \<lfloor>x\<rfloor>"
  by (simp add: py_int_def)

lemma py_int_diff:
  assumes "int h \<le> Hc"
  shows "py_int (real_of_int Hc / 1 - real h / 1) = Hc - int h"
proof -
  have "real_of_int Hc / 1 - real h / 1 = real_of_int (Hc - int h)" by simp
  moreover have "0 \<le> real_of_int (Hc - int h)" using assms by simp
  ultimately show ?thesis by (simp only: py_int_nonneg floor_of_int)
qed

lemma py_int_half:
  assumes "int w \<le> Wc"
  shows "py_int (real_of_int Wc / 2 - real w / 2) = (Wc - int w) div 2"
proof -
  have e: "real_of_int Wc / 2 - real w / 2 = real_of_int (Wc - int w) / real_of_int 2"
    by (simp add: diff_divide_distrib)
  have "0 \<le> real_of_int (Wc - int w) / real_of_int 2" using assms by simp
  then have "py_int (real_of_int (Wc - int w) / real_of_int 2) = \<lfloor>real_of_int (Wc - int w) / real_of_int 2\<rfloor>"
    by (rule py_int_nonneg)
  also have "\<dots> = (Wc - int w) div 2"
    by (rule floor_divide_of_int_eq)
  finally show ?thesis by (simp only: e)
qed

lemma py_slice_inside:
  assumes "0 \<le> a" "a \<le> b" "b \<le> int n"
  shows "py_slice n a b = (nat a, nat b)"
  using assms by (simp add: py_slice_def Let_def min_def)

lemma assign_slice_zeros:
  assumes "fst (shape3 img) = h" "fst (snd (shape3 img)) = w"
  shows "assign_slice (np_zeros3 H W c) (r0, r0 + h) (c0, c0 + w) img =
           Inr (map (\<lambda>i. map (\<lambda>j.
                  if r0 \<le> i \<and> i < r0 + h \<and> c0 \<le> j \<and> j < c0 + w
                  then map (\<lambda>v. real (unat v)) (img ! (i - r0) ! (j - c0))
                  else replicate c 0) [0..<W]) [0..<H])"
  using assms by (auto simp: assign_slice_def broadcast_def np_zeros3_def)

lemma VideMosaic_init_explicit:
  assumes "dtype = ''sift'' \<or> dtype = ''orb''"
    and "process_first_frame cv (if dtype = ''sift'' then SIFT_create 600 else ORB_create 600)
           first_image = Inr (kp, des)"
    and "shape3 first_image = (h, w, c)"
    and "py_float_mul ht (real h) = Some x" and "py_float_mul wt (real w) = Some y"
    and "real h \<le> x" and "real w \<le> y"
  shows "VideMosaic_init cv first_image ht wt dtype =
     Inr \<lparr>detector_type = dtype,
          detector = (if dtype = ''sift'' then SIFT_create 600 else ORB_create 600),
          bf = (if dtype = ''sift'' then FlannBasedMatcher else BFMatcher),
          visualize = False, frame_prev = first_image, kp_prev = kp, des_prev = des,
          output_img =
            map (\<lambda>i. map (\<lambda>j.
                   if nat (\<lfloor>x\<rfloor> - int h) \<le> i \<and> i < nat (\<lfloor>x\<rfloor> - int h) + h
                      \<and> nat ((\<lfloor>y\<rfloor> - int w) div 2) \<le> j
                      \<and> j < nat ((\<lfloor>y\<rfloor> - int w) div 2) + w
                   then map (\<lambda>v. real (unat v))
                          (first_image ! (i - nat (\<lfloor>x\<rfloor> - int h))
                                       ! (j - nat ((\<lfloor>y\<rfloor> - int w) div 2)))
                   else replicate c 0) [0..<nat \<lfloor>y\<rfloor>]) [0..<nat \<lfloor>x\<rfloor>],
          w_offset = \<lfloor>x\<rfloor> - int h,
          h_offset = (\<lfloor>y\<rfloor> - int w) div 2,
          H_old = [[1, 0, real_of_int ((\<lfloor>y\<rfloor> - int w) div 2)],
                   [0, 1, real_of_int (\<lfloor>x\<rfloor> - int h)], [0, 0, 1]],
          frame_cur = None, kp_cur = None, des_cur = None, self_H = None\<rparr>"
proof -
  define Hc where "Hc = \<lfloor>x\<rfloor>"
  define Wc where "Wc = \<lfloor>y\<rfloor>"
  have hH: "int h \<le> Hc" and wW: "int w \<le> Wc"
    unfolding Hc_def Wc_def using assms(6,7) by (simp_all add: le_floor_iff)
  have sh: "fst (shape3 first_image) = h" "fst (snd (shape3 first_image)) = w"
    "snd (snd (shape3 first_image)) = c"
    using assms(3) by simp_all
  have "0 \<le> x" "0 \<le> y"
    using assms(6,7) of_nat_0_le_iff [of h, where ?'a = real]
      of_nat_0_le_iff [of w, where ?'a = real] by linarith+
  then have pH: "py_int x = Hc" and pW: "py_int y = Wc"
    unfolding Hc_def Wc_def by (simp_all add: py_int_nonneg)
  have wo: "py_int (real_of_int Hc / 1 - real h / 1) = Hc - int h"
    using hH by (rule py_int_diff)
  have wo': "py_int (real_of_int Hc - real h) = Hc - int h"
    using wo by simp
  have ho: "py_int (real_of_int Wc / 2 - real w / 2) = (Wc - int w) div 2"
    using wW by (rule py_int_half)
  have "py_slice (nat Hc) (Hc - int h) Hc = (nat (Hc - int h), nat Hc)"
    using hH by (intro py_slice_inside) auto
  then have rs: "py_slice (nat Hc) (Hc - int h) Hc = (nat (Hc - int h), nat (Hc - int h) + h)"
    using hH by (simp add: nat_diff_distrib)
  have "py_slice (nat Wc) ((Wc - int w) div 2) ((Wc - int w) div 2 + int w) =
              (nat ((Wc - int w) div 2), nat ((Wc - int w) div 2 + int w))"
    using wW by (intro py_slice_inside) auto
  then have cs: "py_slice (nat Wc) ((Wc - int w) div 2) ((Wc - int w) div 2 + int w) =
              (nat ((Wc - int w) div 2), nat ((Wc - int w) div 2) + w)"
    using wW by (simp add: nat_add_distrib)
  have nn: "\<not> (Hc < 0 \<or> Wc < 0)" using hH wW by auto
  have ey: "set_entry (set_entry (np_eye 3) 0 2 a) (Suc 0) 2 b = [[1, 0, a], [0, 1, b], [0, 0, 1]]" for a b
    by (simp add: np_eye_def set_entry_def upt_conv_Cons)
  from assms(1) show ?thesis
  proof
    assume d: "dtype = ''sift''"
    with assms(2) have p: "process_first_frame cv (SIFT_create 600) first_image = Inr (kp, des)"
      by simp
    show ?thesis
      unfolding VideMosaic_init_def Hc_def [symmetric] Wc_def [symmetric]
      using d p nn
      by (simp add: sh assms(4,5) pH pW wo' ho rs cs ey Let_def
          assign_slice_zeros [OF sh(1,2)])
  next
    assume d: "dtype = ''orb''"
    with assms(2) have p: "process_first_frame cv (ORB_create 600) first_image = Inr (kp, des)"
      by simp
    show ?thesis
      unfolding VideMosaic_init_def Hc_def [symmetric] Wc_def [symmetric]
      using d p nn
      by (simp add: sh assms(4,5) pH pW wo' ho rs cs ey Let_def
          assign_slice_zeros [OF sh(1,2)])
  qed
qed

lemma shape3_first_pixel:
  assumes "shape3 a = (h, w, c)" "0 < h" "0 < w"
  shows "length (a ! 0 ! 0) = c"
  using assms by (auto simp: shape3_def shape2_def split: list.splits)

lemma shape3_grid:
  assumes "0 < H" "0 < W" "length (g 0 0) = c"
  shows "shape3 (map (\<lambda>i. map (\<lambda>j. g i j) [0..<W]) [0..<H]) = (H, W, c)"
proof -
  have "[0..<H] = 0 # [1..<H]" "[0..<W] = 0 # [1..<W]"
    using assms(1,2) by (simp_all add: upt_conv_Cons)
  then show ?thesis
    using assms by (simp add: shape3_def shape2_def)
qed

text \<open>
  Claim C6, as the code has it. Let \<open>x\<close> and \<open>y\<close> be the float products of the height
  multiplier with the frame height \<open>h\<close> and of the width multiplier with the frame width
  \<open>w\<close>. For a non-empty first frame of shape \<open>(h, w, c)\<close>, a detector type \<open>sift\<close> or
  \<open>orb\<close>, and products not below \<open>h\<close> and \<open>w\<close>, the constructor returns an object whose
  canvas has the shape \<open>(int(x), int(y), c)\<close>, the products truncated to integers; the
  vertical offset is the canvas height minus \<open>h\<close> and the horizontal offset is the
  canvas width minus \<open>w\<close>, halved and truncated to an integer; the first frame fills
  the canvas from that offset on; and the initial pose is the identity with the
  horizontal offset at \<open>[0][2]\<close> and the vertical offset at \<open>[1][2]\<close>. Both offsets are
  functions of \<open>h\<close>, \<open>w\<close> and the multipliers alone.
\<close>

theorem VideMosaic_init_canvas:
  assumes "dtype = ''sift'' \<or> dtype = ''orb''"
    and "process_first_frame cv (if dtype = ''sift'' then SIFT_create 600 else ORB_create 600)
           first_image = Inr (kp, des)"
    and "shape3 first_image = (h, w, c)" and "0 < h" and "0 < w"
    and "py_float_mul ht (real h) = Some x" and "py_float_mul wt (real w) = Some y"
    and "real h \<le> x" and "real w \<le> y"
  shows "\<exists>self. VideMosaic_init cv first_image ht wt dtype = Inr self
           \<and> shape3 (output_img self) = (nat \<lfloor>x\<rfloor>, nat \<lfloor>y\<rfloor>, c)
           \<and> w_offset self = \<lfloor>x\<rfloor> - int h
           \<and> h_offset self = (\<lfloor>y\<rfloor> - int w) div 2
           \<and> H_old self = [[1, 0, real_of_int (h_offset self)],
                            [0, 1, real_of_int (w_offset self)], [0, 0, 1]]
           \<and> (\<forall>i<h. \<forall>j<w.
                 output_img self ! (nat (w_offset self) + i) ! (nat (h_offset self) + j) =
                   map (\<lambda>v. real (unat v)) (first_image ! i ! j))"
proof -
  define r0 where "r0 = nat (\<lfloor>x\<rfloor> - int h)"
  define c0 where "c0 = nat ((\<lfloor>y\<rfloor> - int w) div 2)"
  define H where "H = nat \<lfloor>x\<rfloor>"
  define W where "W = nat \<lfloor>y\<rfloor>"
  define g where "g = (\<lambda>i j. if r0 \<le> i \<and> i < r0 + h \<and> c0 \<le> j \<and> j < c0 + w
                     then map (\<lambda>v. real (unat v)) (first_image ! (i - r0) ! (j - c0))
                     else replicate c 0)"
  define out where "out = map (\<lambda>i. map (\<lambda>j. g i j) [0..<W]) [0..<H]"
  have hH: "int h \<le> \<lfloor>x\<rfloor>" and wW: "int w \<le> \<lfloor>y\<rfloor>"
    using assms(8,9) by (simp_all add: le_floor_iff)
  have rH: "r0 + h = H"
    unfolding r0_def H_def using hH by (simp add: nat_diff_distrib)
  have "(\<lfloor>y\<rfloor> - int w) div 2 + int w \<le> \<lfloor>y\<rfloor>"
    using wW by auto
  then have cW: "c0 + w \<le> W"
    unfolding c0_def W_def using wW by (simp add: nat_le_iff)
  have pos: "0 < H" "0 < W"
    using rH cW assms(4,5) by auto
  have "length (g 0 0) = c"
    using shape3_first_pixel [OF assms(3,4,5)] by (auto simp: g_def)
  then have shp: "shape3 out = (H, W, c)"
    unfolding out_def using pos by (intro shape3_grid)
  have px: "out ! (r0 + i) ! (c0 + j) = map (\<lambda>v. real (unat v)) (first_image ! i ! j)"
    if "i < h" "j < w" for i j
  proof -
    have "r0 + i < H" "c0 + j < W" using that rH cW by auto
    then have "out ! (r0 + i) ! (c0 + j) = g (r0 + i) (c0 + j)"
      by (simp add: out_def)
    then show ?thesis using that by (simp add: g_def)
  qed
  have "VideMosaic_init cv first_image ht wt dtype =
     Inr \<lparr>detector_type = dtype,
          detector = (if dtype = ''sift'' then SIFT_create 600 else ORB_create 600),
          bf = (if dtype = ''sift'' then FlannBasedMatcher else BFMatcher),
          visualize = False, frame_prev = first_image, kp_prev = kp, des_prev = des,
          output_img = out,
          w_offset = \<lfloor>x\<rfloor> - int h,
          h_offset = (\<lfloor>y\<rfloor> - int w) div 2,
          H_old = [[1, 0, real_of_int ((\<lfloor>y\<rfloor> - int w) div 2)],
                   [0, 1, real_of_int (\<lfloor>x\<rfloor> - int h)], [0, 0, 1]],
          frame_cur = None, kp_cur = None, des_cur = None, self_H = None\<rparr>"
    unfolding out_def g_def r0_def c0_def H_def W_def
    using assms(1,2,3,6,7,8,9) by (rule VideMosaic_init_explicit)
  then show ?thesis
    using shp px by (simp add: r0_def c0_def H_def W_def)
qed

text \<open>
  The frame of five samples, with the default multipliers 3 and the float \<open>1.2\<close>: the
  float products are 3 and 6.
\<close>

theorem VideMosaic_init_canvas_witness:
  "process_first_frame demo_cv (if ''sift'' = ''sift'' then SIFT_create 600 else ORB_create 600)
     demo_frame0 = Inr (kp_prev demo_sift, Some [1, 2, 3, 4])
   \<and> shape3 demo_frame0 = (1, 5, 1)
   \<and> py_float_mul 3 (real 1) = Some 3 \<and> py_float_mul float_1_2 (real 5) = Some 6
   \<and> VideMosaic_init demo_cv demo_frame0 3 float_1_2 ''sift'' = Inr demo_sift
   \<and> shape3 (output_img demo_sift) = (3, 6, 1)
   \<and> w_offset demo_sift = 2 \<and> h_offset demo_sift = 0
   \<and> H_old demo_sift = [[1, 0, 0], [0, 1, 2], [0, 0, 1]]"
proof -
  have a: "process_first_frame demo_cv (if ''sift'' = ''sift'' then SIFT_create 600 else ORB_create 600)
     demo_frame0 = Inr (kp_prev demo_sift, Some [1, 2, 3, 4])"
    by code_simp
  have b: "shape3 demo_frame0 = (1, 5, 1)"
    by code_simp
  have x: "py_float_mul 3 (real 1) = Some 3"
    by code_simp
  have y: "py_float_mul float_1_2 (real 5) = Some 6"
    by code_simp
  have i: "VideMosaic_init demo_cv demo_frame0 3 float_1_2 ''sift'' = Inr demo_sift"
    by code_simp
  from VideMosaic_init_canvas [OF _ a b _ _ x y] i
  have "shape3 (output_img demo_sift) = (nat \<lfloor>3 :: real\<rfloor>, nat \<lfloor>6 :: real\<rfloor>, 1)
      \<and> w_offset demo_sift = \<lfloor>3 :: real\<rfloor> - int 1
      \<and> h_offset demo_sift = (\<lfloor>6 :: real\<rfloor> - int 5) div 2
      \<and> H_old demo_sift = [[1, 0, real_of_int (h_offset demo_sift)],
                            [0, 1, real_of_int (w_offset demo_sift)], [0, 0, 1]]"
    by auto
  then show ?thesis using a b x y i by simp
qed

text \<open>
  The claim as stated fails: for a frame of width 7 and the multiplier 1.2 the float
  product is 8.4 and the canvas is 8 wide, and the horizontal offset is 0, not
  \<open>(8 - 7) / 2\<close>.
\<close>

theorem canvas_size_truncated_counterexample:
  "map_sum id (\<lambda>s. (shape3 (output_img s), w_offset s, h_offset s))
     (VideMosaic_init demo_cv demo_frame7 3 float_1_2 ''sift'') = Inr ((3, 8, 1), 2, 0)
   \<and> py_float_mul float_1_2 (real 7) = Some (4728779608739021 / 562949953421312)
   \<and> real 8 \<noteq> 4728779608739021 / 562949953421312
   \<and> real 8 \<noteq> float_1_2 * real 7
   \<and> real_of_int 0 \<noteq> (real 8 - real 7) / 2"
proof -
  have "map_sum id (\<lambda>s. (shape3 (output_img s), w_offset s, h_offset s))
     (VideMosaic_init demo_cv demo_frame7 3 float_1_2 ''sift'') = Inr ((3, 8, 1), 2, 0)"
    by code_simp
  moreover have "py_float_mul float_1_2 (real 7) = Some (4728779608739021 / 562949953421312)"
    by code_simp
  ultimately show ?thesis by (simp add: float_1_2_def)
qed

end
